theory Spec2Isabelle
  imports Main "HOL-Library.Sublist"
begin

section \<open>JavaScript values that travel through the server\<close>

text \<open>
  The server (the Express program in the second half of \<^verbatim>\<open>src/README.md\<close>, and its
  near-duplicate \<^verbatim>\<open>src/server.js\<close>) handles values produced by \<^verbatim>\<open>JSON.parse\<close>:
  \<^verbatim>\<open>express.json()\<close> fills \<^verbatim>\<open>req.body\<close> with one, and the handlers parse the model's
  answer into another. Strings are byte strings (UTF-8). An object is an association
  list in insertion order with distinct keys. A number \<open>JNum m e\<close> is the decimal
  \<open>m * 10^e\<close>: every JSON number literal is one, and so is every finite double; the
  rounding of a literal to the nearest double is not modelled. \<open>JUndefined\<close> is
  \<^verbatim>\<open>undefined\<close>: no parsed text contains it, but a missing property reads as it.
\<close>

datatype json =
    JUndefined
  | JNull
  | JBool bool
  | JNum int int
  | JStr string
  | JArr "json list"
  | JObj "(string \<times> json) list"

text \<open>Thrown values. \<open>ZodError\<close> carries the issues of a failed schema parse (path and code).\<close>

datatype path_elem = Key string | Index nat

datatype issue_code = invalid_type | not_integer | too_small | too_big

type_synonym zod_issue = "path_elem list \<times> issue_code"

datatype js_error =
    Error string
  | TypeError string
  | ZodError "zod_issue list"

subsection \<open>Language primitives: truthiness, string conversion, \<^verbatim>\<open>Array.prototype.join\<close>\<close>

text \<open>\<^verbatim>\<open>!x\<close> is true exactly for \<^verbatim>\<open>undefined\<close>, \<^verbatim>\<open>null\<close>, \<^verbatim>\<open>false\<close>, \<^verbatim>\<open>0\<close> and \<^verbatim>\<open>""\<close>.\<close>

fun truthy :: "json \<Rightarrow> bool" where
  "truthy JUndefined = False"
| "truthy JNull = False"
| "truthy (JBool b) = b"
| "truthy (JNum m e) = (m \<noteq> 0)"
| "truthy (JStr s) = (s \<noteq> [])"
| "truthy (JArr xs) = True"
| "truthy (JObj kvs) = True"

definition digit_char :: "nat \<Rightarrow> char" where
  "digit_char d = ''0123456789'' ! (d mod 10)"

function dec_digits :: "nat \<Rightarrow> string" where
  "dec_digits n = (if n < 10 then [digit_char n] else dec_digits (n div 10) @ [digit_char (n mod 10)])"
  by pat_completeness auto
termination
  by (relation "measure id") auto

text \<open>
  \<open>Number::toString\<close> (radix 10) of the decimal \<open>m * 10^e\<close>: with \<open>k\<close> significant
  digits \<open>ds\<close> and the value equal to \<open>0.ds * 10^n\<close>, plain digits when
  \<open>k \<le> n \<le> 21\<close>, a decimal point inside when \<open>0 < n \<le> 21\<close>, leading \<open>0.00\<close> when
  \<open>-6 < n \<le> 0\<close>, exponent notation otherwise.
\<close>

definition number_to_string :: "int \<Rightarrow> int \<Rightarrow> string" where
  "number_to_string m e =
     (if m = 0 then ''0''
      else
        let ds0 = dec_digits (nat \<bar>m\<bar>);
            ds = rev (dropWhile (\<lambda>c. c = CHR ''0'') (rev ds0));
            k = int (length ds);
            n = int (length ds0) + e;
            body =
              (if k \<le> n \<and> n \<le> 21 then ds @ replicate (nat (n - k)) (CHR ''0'')
               else if 0 < n \<and> n \<le> 21 then take (nat n) ds @ ''.'' @ drop (nat n) ds
               else if - 6 < n \<and> n \<le> 0 then ''0.'' @ replicate (nat (- n)) (CHR ''0'') @ ds
               else
                 let ex = n - 1;
                     es = (if ex < 0 then ''-'' else ''+'') @ dec_digits (nat \<bar>ex\<bar>)
                 in if k = 1 then ds @ ''e'' @ es
                    else take 1 ds @ ''.'' @ drop 1 ds @ ''e'' @ es)
        in (if m < 0 then ''-'' else []) @ body)"

fun join_with :: "string \<Rightarrow> string list \<Rightarrow> string" where
  "join_with sep [] = []"
| "join_with sep [x] = x"
| "join_with sep (x # y # ys) = x @ sep @ join_with sep (y # ys)"

text \<open>
  \<open>ToString\<close> of a value: what a template literal \<^verbatim>\<open>`${v}`\<close> and \<^verbatim>\<open>JSON.parse(v)\<close> first
  turn \<open>v\<close> into. An array is its elements joined by a comma, \<^verbatim>\<open>null\<close> and \<^verbatim>\<open>undefined\<close>
  elements as the empty string; a plain object is \<^verbatim>\<open>[object Object]\<close>.
\<close>

fun ToString :: "json \<Rightarrow> string" where
  "ToString JUndefined = ''undefined''"
| "ToString JNull = ''null''"
| "ToString (JBool b) = (if b then ''true'' else ''false'')"
| "ToString (JNum m e) = number_to_string m e"
| "ToString (JStr s) = s"
| "ToString (JArr xs) = join_with '','' (map (\<lambda>x. case x of JUndefined \<Rightarrow> [] | JNull \<Rightarrow> [] | _ \<Rightarrow> ToString x) xs)"
| "ToString (JObj kvs) = ''[object Object]''"

text \<open>
  \<^verbatim>\<open>xs.join(sep)\<close>: \<^verbatim>\<open>null\<close> and \<^verbatim>\<open>undefined\<close> elements give the empty string, the others
  their \<open>ToString\<close>.
\<close>

definition elem_string :: "json \<Rightarrow> string" where
  "elem_string x = (case x of JUndefined \<Rightarrow> [] | JNull \<Rightarrow> [] | _ \<Rightarrow> ToString x)"

definition array_join :: "string \<Rightarrow> json list \<Rightarrow> string" where
  "array_join sep xs = join_with sep (map elem_string xs)"

text \<open>
  Property read \<^verbatim>\<open>v.k\<close> on a parsed value, for the keys the handlers read (none of them
  is a property of strings, arrays or \<^verbatim>\<open>Object.prototype\<close>): \<^verbatim>\<open>undefined\<close> unless \<open>v\<close> is an
  object that has the key. Reading a property of \<^verbatim>\<open>null\<close> or \<^verbatim>\<open>undefined\<close> throws: the
  handlers read properties of what a \<^verbatim>\<open>z.object\<close> schema returned, which is an object,
  and \<^verbatim>\<open>/api/ask\<close>, which reads \<^verbatim>\<open>req.body\<close> itself, has that throw as a branch.
\<close>

fun field :: "json \<Rightarrow> string \<Rightarrow> json" where
  "field (JObj kvs) k = (case map_of kvs k of None \<Rightarrow> JUndefined | Some v \<Rightarrow> v)"
| "field _ k = JUndefined"

subsection \<open>\<^verbatim>\<open>JSON.stringify\<close> of a string\<close>

definition hex_char :: "nat \<Rightarrow> char" where
  "hex_char d = ''0123456789abcdef'' ! (d mod 16)"

definition quote_char :: "char \<Rightarrow> string" where
  "quote_char c =
     (let n = (of_char c :: nat) in
      if n = 8 then [CHR 0x5C, CHR ''b'']
      else if n = 9 then [CHR 0x5C, CHR ''t'']
      else if n = 10 then [CHR 0x5C, CHR ''n'']
      else if n = 12 then [CHR 0x5C, CHR ''f'']
      else if n = 13 then [CHR 0x5C, CHR ''r'']
      else if n = 34 then [CHR 0x5C, CHR 0x22]
      else if n = 92 then [CHR 0x5C, CHR 0x5C]
      else if n < 32 then [CHR 0x5C, CHR ''u'', CHR ''0'', CHR ''0'', hex_char (n div 16), hex_char (n mod 16)]
      else [c])"

definition json_quote :: "string \<Rightarrow> string" where
  "json_quote s = [CHR 0x22] @ concat (map quote_char s) @ [CHR 0x22]"

subsection \<open>\<^verbatim>\<open>JSON.parse\<close>\<close>

text \<open>
  The runtime's parser, as a scanner that reads one character at a time and a pushdown
  automaton over its tokens. \<open>None\<close> is the \<^verbatim>\<open>SyntaxError\<close>. A repeated key keeps its first
  position and its last value. A \<^verbatim>\<open>\u\<close> escape is stored as the UTF-8 bytes of its code
  point, a surrogate pair as one code point.
\<close>

datatype token = TLBrace | TRBrace | TLBrack | TRBrack | TColon | TComma | TVal json

datatype lstate =
    LStart
  | LLit string json
  | LStr string "nat option"
  | LEsc string "nat option"
  | LHex string "nat option" nat nat
  | NMinus
  | NZero bool
  | NInt bool nat
  | NDot bool nat
  | NFrac bool nat nat
  | NE bool nat nat
  | NESign bool nat nat bool
  | NExp bool nat nat bool nat

definition digit_val :: "char \<Rightarrow> nat option" where
  "digit_val c = (let n = (of_char c :: nat) in if 48 \<le> n \<and> n \<le> 57 then Some (n - 48) else None)"

definition hex_val :: "char \<Rightarrow> nat option" where
  "hex_val c =
     (let n = (of_char c :: nat) in
      if 48 \<le> n \<and> n \<le> 57 then Some (n - 48)
      else if 65 \<le> n \<and> n \<le> 70 then Some (n - 55)
      else if 97 \<le> n \<and> n \<le> 102 then Some (n - 87)
      else None)"

definition utf8 :: "nat \<Rightarrow> string" where
  "utf8 cp =
     (if cp < 0x80 then [char_of cp]
      else if cp < 0x800 then [char_of (0xC0 + cp div 64), char_of (0x80 + cp mod 64)]
      else if cp < 0x10000 then
        [char_of (0xE0 + cp div 4096), char_of (0x80 + (cp div 64) mod 64), char_of (0x80 + cp mod 64)]
      else
        [char_of (0xF0 + cp div 262144), char_of (0x80 + (cp div 4096) mod 64),
         char_of (0x80 + (cp div 64) mod 64), char_of (0x80 + cp mod 64)])"

definition flush :: "nat option \<Rightarrow> string \<Rightarrow> string" where
  "flush pend acc = (case pend of None \<Rightarrow> acc | Some h \<Rightarrow> acc @ utf8 h)"

definition is_high :: "nat \<Rightarrow> bool" where
  "is_high u = (0xD800 \<le> u \<and> u < 0xDC00)"

definition is_low :: "nat \<Rightarrow> bool" where
  "is_low u = (0xDC00 \<le> u \<and> u < 0xE000)"

definition unit_done :: "string \<Rightarrow> nat option \<Rightarrow> nat \<Rightarrow> lstate" where
  "unit_done acc pend u =
     (case pend of
        Some h \<Rightarrow>
          if is_low u then LStr (acc @ utf8 (0x10000 + (h - 0xD800) * 0x400 + (u - 0xDC00))) None
          else if is_high u then LStr (acc @ utf8 h) (Some u)
          else LStr (acc @ utf8 h @ utf8 u) None
      | None \<Rightarrow> if is_high u then LStr acc (Some u) else LStr (acc @ utf8 u) None)"

function norm_num :: "int \<Rightarrow> int \<Rightarrow> json" where
  "norm_num m e = (if m \<noteq> 0 \<and> m mod 10 = 0 then norm_num (m div 10) (e + 1)
                   else if m = 0 then JNum 0 0 else JNum m e)"
  by pat_completeness auto
termination
  by (relation "measure (\<lambda>(m, e). nat \<bar>m\<bar>)") auto

definition num_token :: "bool \<Rightarrow> nat \<Rightarrow> nat \<Rightarrow> bool \<Rightarrow> nat \<Rightarrow> token" where
  "num_token neg m fd eneg ev =
     TVal (norm_num (if neg then - int m else int m)
                    ((if eneg then - int ev else int ev) - int fd))"

definition lstart :: "char \<Rightarrow> (token list \<times> lstate) option" where
  "lstart c =
     (if c = CHR '' '' \<or> c = CHR 0x09 \<or> c = CHR 0x0A \<or> c = CHR 0x0D then Some ([], LStart)
      else if c = CHR ''{'' then Some ([TLBrace], LStart)
      else if c = CHR ''}'' then Some ([TRBrace], LStart)
      else if c = CHR ''['' then Some ([TLBrack], LStart)
      else if c = CHR '']'' then Some ([TRBrack], LStart)
      else if c = CHR '':'' then Some ([TColon], LStart)
      else if c = CHR '','' then Some ([TComma], LStart)
      else if c = CHR 0x22 then Some ([], LStr [] None)
      else if c = CHR ''-'' then Some ([], NMinus)
      else if c = CHR ''0'' then Some ([], NZero False)
      else if c = CHR ''t'' then Some ([], LLit ''rue'' (JBool True))
      else if c = CHR ''f'' then Some ([], LLit ''alse'' (JBool False))
      else if c = CHR ''n'' then Some ([], LLit ''ull'' JNull)
      else (case digit_val c of Some d \<Rightarrow> Some ([], NInt False d) | None \<Rightarrow> None))"

definition after_num :: "token \<Rightarrow> char \<Rightarrow> (token list \<times> lstate) option" where
  "after_num t c = (case lstart c of None \<Rightarrow> None | Some (ts, st) \<Rightarrow> Some (t # ts, st))"

definition is_e :: "char \<Rightarrow> bool" where
  "is_e c = (c = CHR ''e'' \<or> c = CHR ''E'')"

fun lstep :: "lstate \<Rightarrow> char \<Rightarrow> (token list \<times> lstate) option" where
  "lstep LStart c = lstart c"
| "lstep (LLit [] v) c = None"
| "lstep (LLit (x # xs) v) c =
     (if c \<noteq> x then None else if xs = [] then Some ([TVal v], LStart) else Some ([], LLit xs v))"
| "lstep (LStr acc pend) c =
     (if c = CHR 0x22 then Some ([TVal (JStr (flush pend acc))], LStart)
      else if c = CHR 0x5C then Some ([], LEsc acc pend)
      else if (of_char c :: nat) < 32 then None
      else Some ([], LStr (flush pend acc @ [c]) None))"
| "lstep (LEsc acc pend) c =
     (if c = CHR ''u'' then Some ([], LHex acc pend 0 0)
      else if c = CHR 0x22 \<or> c = CHR 0x5C \<or> c = CHR ''/'' then Some ([], LStr (flush pend acc @ [c]) None)
      else if c = CHR ''b'' then Some ([], LStr (flush pend acc @ [CHR 0x08]) None)
      else if c = CHR ''f'' then Some ([], LStr (flush pend acc @ [CHR 0x0C]) None)
      else if c = CHR ''n'' then Some ([], LStr (flush pend acc @ [CHR 0x0A]) None)
      else if c = CHR ''r'' then Some ([], LStr (flush pend acc @ [CHR 0x0D]) None)
      else if c = CHR ''t'' then Some ([], LStr (flush pend acc @ [CHR 0x09]) None)
      else None)"
| "lstep (LHex acc pend n v) c =
     (case hex_val c of
        None \<Rightarrow> None
      | Some d \<Rightarrow> if n = 3 then Some ([], unit_done acc pend (v * 16 + d))
                  else Some ([], LHex acc pend (Suc n) (v * 16 + d)))"
| "lstep NMinus c =
     (if c = CHR ''0'' then Some ([], NZero True)
      else (case digit_val c of Some d \<Rightarrow> Some ([], NInt True d) | None \<Rightarrow> None))"
| "lstep (NZero neg) c =
     (if c = CHR ''.'' then Some ([], NDot neg 0)
      else if is_e c then Some ([], NE neg 0 0)
      else after_num (num_token neg 0 0 False 0) c)"
| "lstep (NInt neg m) c =
     (case digit_val c of
        Some d \<Rightarrow> Some ([], NInt neg (m * 10 + d))
      | None \<Rightarrow>
          if c = CHR ''.'' then Some ([], NDot neg m)
          else if is_e c then Some ([], NE neg m 0)
          else after_num (num_token neg m 0 False 0) c)"
| "lstep (NDot neg m) c =
     (case digit_val c of Some d \<Rightarrow> Some ([], NFrac neg (m * 10 + d) 1) | None \<Rightarrow> None)"
| "lstep (NFrac neg m fd) c =
     (case digit_val c of
        Some d \<Rightarrow> Some ([], NFrac neg (m * 10 + d) (Suc fd))
      | None \<Rightarrow>
          if is_e c then Some ([], NE neg m fd)
          else after_num (num_token neg m fd False 0) c)"
| "lstep (NE neg m fd) c =
     (if c = CHR ''+'' then Some ([], NESign neg m fd False)
      else if c = CHR ''-'' then Some ([], NESign neg m fd True)
      else (case digit_val c of Some d \<Rightarrow> Some ([], NExp neg m fd False d) | None \<Rightarrow> None))"
| "lstep (NESign neg m fd eneg) c =
     (case digit_val c of Some d \<Rightarrow> Some ([], NExp neg m fd eneg d) | None \<Rightarrow> None)"
| "lstep (NExp neg m fd eneg ev) c =
     (case digit_val c of
        Some d \<Rightarrow> Some ([], NExp neg m fd eneg (ev * 10 + d))
      | None \<Rightarrow> after_num (num_token neg m fd eneg ev) c)"

fun lfinish :: "lstate \<Rightarrow> token list option" where
  "lfinish LStart = Some []"
| "lfinish (NZero neg) = Some [num_token neg 0 0 False 0]"
| "lfinish (NInt neg m) = Some [num_token neg m 0 False 0]"
| "lfinish (NFrac neg m fd) = Some [num_token neg m fd False 0]"
| "lfinish (NExp neg m fd eneg ev) = Some [num_token neg m fd eneg ev]"
| "lfinish _ = None"

fun scan :: "lstate \<Rightarrow> string \<Rightarrow> token list option" where
  "scan st [] = lfinish st"
| "scan st (c # cs) =
     (case lstep st c of
        None \<Rightarrow> None
      | Some (ts, st') \<Rightarrow> (case scan st' cs of None \<Rightarrow> None | Some rest \<Rightarrow> Some (ts @ rest)))"

datatype frame = FArr "json list" | FObj "(string \<times> json) list" string

datatype pstate = PValue | PArrFirst | PObjFirst | PKey "(string \<times> json) list"
  | PColon "(string \<times> json) list" string | PAfter json

fun put :: "string \<Rightarrow> json \<Rightarrow> (string \<times> json) list \<Rightarrow> (string \<times> json) list" where
  "put k v [] = [(k, v)]"
| "put k v ((k', v') # ms) = (if k' = k then (k, v) # ms else (k', v') # put k v ms)"

fun value_tok :: "token \<Rightarrow> frame list \<Rightarrow> (pstate \<times> frame list) option" where
  "value_tok (TVal v) st = Some (PAfter v, st)"
| "value_tok TLBrack st = Some (PArrFirst, FArr [] # st)"
| "value_tok TLBrace st = Some (PObjFirst, st)"
| "value_tok _ st = None"

fun pstep :: "pstate \<Rightarrow> frame list \<Rightarrow> token \<Rightarrow> (pstate \<times> frame list) option" where
  "pstep PValue st t = value_tok t st"
| "pstep PArrFirst st t =
     (case t of
        TRBrack \<Rightarrow> (case st of FArr [] # st' \<Rightarrow> Some (PAfter (JArr []), st') | _ \<Rightarrow> None)
      | _ \<Rightarrow> value_tok t st)"
| "pstep PObjFirst st t =
     (case t of
        TRBrace \<Rightarrow> Some (PAfter (JObj []), st)
      | TVal (JStr k) \<Rightarrow> Some (PColon [] k, st)
      | _ \<Rightarrow> None)"
| "pstep (PKey ms) st t = (case t of TVal (JStr k) \<Rightarrow> Some (PColon ms k, st) | _ \<Rightarrow> None)"
| "pstep (PColon ms k) st t = (case t of TColon \<Rightarrow> Some (PValue, FObj ms k # st) | _ \<Rightarrow> None)"
| "pstep (PAfter v) st t =
     (case st of
        [] \<Rightarrow> None
      | FArr items # st' \<Rightarrow>
          (case t of
             TComma \<Rightarrow> Some (PValue, FArr (items @ [v]) # st')
           | TRBrack \<Rightarrow> Some (PAfter (JArr (items @ [v])), st')
           | _ \<Rightarrow> None)
      | FObj ms k # st' \<Rightarrow>
          (case t of
             TComma \<Rightarrow> Some (PKey (put k v ms), st')
           | TRBrace \<Rightarrow> Some (PAfter (JObj (put k v ms)), st')
           | _ \<Rightarrow> None))"

fun run :: "pstate \<Rightarrow> frame list \<Rightarrow> token list \<Rightarrow> json option" where
  "run (PAfter v) [] [] = Some v"
| "run p st [] = None"
| "run p st (t # ts) = (case pstep p st t of None \<Rightarrow> None | Some (p', st') \<Rightarrow> run p' st' ts)"

definition JSON_parse :: "string \<Rightarrow> json option" where
  "JSON_parse s = (case scan LStart s of None \<Rightarrow> None | Some ts \<Rightarrow> run PValue [] ts)"

text \<open>
  \<^verbatim>\<open>
  function safeParseJSON(str) {
    try { return JSON.parse(str); } catch { return null; }
  }
  \<close>
  \<^verbatim>\<open>JSON.parse\<close> converts its argument to a string first. The result \<^verbatim>\<open>null\<close> is both the
  failure and the parse of the text \<^verbatim>\<open>null\<close>.
\<close>

definition safeParseJSON :: "json \<Rightarrow> json" where
  "safeParseJSON v = (case JSON_parse (ToString v) of None \<Rightarrow> JNull | Some j \<Rightarrow> j)"

subsection \<open>The process: environment, the module-level client, and what is observed\<close>

record env =
  OPENAI_API_KEY :: "string option"
  OPENAI_MODEL :: "string option"

text \<open>
  \<^verbatim>\<open>new OpenAI({ apiKey })\<close> allocates a fresh object; \<open>handle\<close> is its identity (the
  number of clients constructed before it).
\<close>

record client =
  apiKey :: string
  handle :: nat

record chat_request =
  model :: string
  messages :: "(string \<times> json) list"
  response_format :: "string option"
  stream :: bool

text \<open>
  \<open>openai\<close> is the module-level \<^verbatim>\<open>let openai = null\<close>. The other two fields are
  observations, not program variables: how many times \<^verbatim>\<open>new OpenAI\<close> ran, and the
  requests handed to \<^verbatim>\<open>chat.completions.create\<close>, in order.
\<close>

record server_state =
  openai :: "client option"
  constructions :: nat
  gateway_calls :: "chat_request list"

definition initial_state :: server_state where
  "initial_state = \<lparr>openai = None, constructions = 0, gateway_calls = []\<rparr>"

text \<open>\<^verbatim>\<open>!process.env.X\<close>: an unset variable and the empty string are both falsy.\<close>

fun env_falsy :: "string option \<Rightarrow> bool" where
  "env_falsy None = True"
| "env_falsy (Some k) = (k = [])"

text \<open>\<^verbatim>\<open>let MODEL = process.env.OPENAI_MODEL || "gpt-4o-mini"\<close>\<close>

definition MODEL :: "env \<Rightarrow> string" where
  "MODEL e = (case OPENAI_MODEL e of
                None \<Rightarrow> ''gpt-4o-mini''
              | Some m \<Rightarrow> if m = [] then ''gpt-4o-mini'' else m)"

text \<open>
  \<^verbatim>\<open>
  function getOpenAI() {
    if (!openai) {
      if (!process.env.OPENAI_API_KEY) {
        throw new Error("OPENAI_API_KEY not set");
      }
      openai = new OpenAI({ apiKey: process.env.OPENAI_API_KEY });
    }
    return openai;
  }
  \<close>
\<close>

definition getOpenAI :: "env \<Rightarrow> server_state \<Rightarrow> server_state \<times> (js_error + client)" where
  "getOpenAI e s =
     (case openai s of
        Some c \<Rightarrow> (s, Inr c)
      | None \<Rightarrow>
          (case OPENAI_API_KEY e of
             None \<Rightarrow> (s, Inl (Error ''OPENAI_API_KEY not set''))
           | Some k \<Rightarrow>
               if k = [] then (s, Inl (Error ''OPENAI_API_KEY not set''))
               else
                 let c = \<lparr>apiKey = k, handle = constructions s\<rparr>
                 in (s\<lparr>openai := Some c, constructions := Suc (constructions s)\<rparr>, Inr c)))"


subsection \<open>The schema library\<close>

text \<open>
  The schemas are \<^verbatim>\<open>zod\<close> values; the library is not part of the repository, so the
  combinators the server uses are given here with the library's documented behaviour.
  A schema parse visits every field and collects every issue; \<^verbatim>\<open>.parse\<close> throws a
  \<open>ZodError\<close> when there is one. \<^verbatim>\<open>z.object\<close> accepts a plain object only, reads each key
  of its shape from the input, drops the input's other keys, and returns the parsed
  fields in the shape's order. \<^verbatim>\<open>.default(d)\<close> replaces \<^verbatim>\<open>undefined\<close> by \<open>d\<close> and parses
  that; \<^verbatim>\<open>null\<close> is not \<^verbatim>\<open>undefined\<close>.
\<close>

datatype str_check = SMin nat

datatype num_check = CInt | CMin int | CMax int

datatype schema =
    ZString "str_check list"
  | ZNumber "num_check list"
  | ZAny
  | ZArray schema
  | ZObject "(string \<times> schema) list"
  | ZOptional schema
  | ZDefault schema json

text \<open>\<^verbatim>\<open>s.length\<close> counts UTF-16 code units: one for each character of up to three bytes,
  two for a character of four bytes.\<close>

definition js_length :: "string \<Rightarrow> nat" where
  "js_length s =
     sum_list (map (\<lambda>c. let n = (of_char c :: nat)
                         in if n < 0x80 then 1 else if n < 0xC0 then 0 else if n < 0xF0 then 1 else 2) s)"

fun str_issue :: "path_elem list \<Rightarrow> string \<Rightarrow> str_check \<Rightarrow> zod_issue list" where
  "str_issue p s (SMin n) = (if js_length s < n then [(p, too_small)] else [])"

text \<open>Tests on the decimal \<open>m * 10^e\<close>: \<^verbatim>\<open>Number.isInteger\<close>, \<open>b \<le> value\<close>, \<open>value \<le> b\<close>.\<close>

definition is_integer :: "int \<Rightarrow> int \<Rightarrow> bool" where
  "is_integer m e = (if 0 \<le> e then True else m mod 10 ^ nat (- e) = 0)"

definition num_ge :: "int \<Rightarrow> int \<Rightarrow> int \<Rightarrow> bool" where
  "num_ge m e b = (if 0 \<le> e then b \<le> m * 10 ^ nat e else b * 10 ^ nat (- e) \<le> m)"

definition num_le :: "int \<Rightarrow> int \<Rightarrow> int \<Rightarrow> bool" where
  "num_le m e b = (if 0 \<le> e then m * 10 ^ nat e \<le> b else m \<le> b * 10 ^ nat (- e))"

fun num_issue :: "path_elem list \<Rightarrow> int \<Rightarrow> int \<Rightarrow> num_check \<Rightarrow> zod_issue list" where
  "num_issue p m e CInt = (if is_integer m e then [] else [(p, not_integer)])"
| "num_issue p m e (CMin b) = (if num_ge m e b then [] else [(p, too_small)])"
| "num_issue p m e (CMax b) = (if num_le m e b then [] else [(p, too_big)])"

fun zparse :: "schema \<Rightarrow> path_elem list \<Rightarrow> json \<Rightarrow> zod_issue list \<times> json" where
  "zparse (ZString cs) p v =
     (case v of
        JStr s \<Rightarrow> (concat (map (str_issue p s) cs), JStr s)
      | _ \<Rightarrow> ([(p, invalid_type)], JUndefined))"
| "zparse (ZNumber cs) p v =
     (case v of
        JNum m e \<Rightarrow> (concat (map (num_issue p m e) cs), JNum m e)
      | _ \<Rightarrow> ([(p, invalid_type)], JUndefined))"
| "zparse ZAny p v = ([], v)"
| "zparse (ZArray s) p v =
     (case v of
        JArr xs \<Rightarrow>
          (let rs = map (\<lambda>ix. zparse s (p @ [Index (fst ix)]) (snd ix)) (enumerate 0 xs)
           in (concat (map fst rs), JArr (map snd rs)))
      | _ \<Rightarrow> ([(p, invalid_type)], JUndefined))"
| "zparse (ZObject shape) p v =
     (case v of
        JObj kvs \<Rightarrow>
          (let rs = map (\<lambda>ks. (fst ks, zparse (snd ks) (p @ [Key (fst ks)]) (field (JObj kvs) (fst ks)))) shape
           in (concat (map (\<lambda>r. fst (snd r)) rs),
               JObj (filter (\<lambda>kv. snd kv \<noteq> JUndefined) (map (\<lambda>r. (fst r, snd (snd r))) rs))))
      | _ \<Rightarrow> ([(p, invalid_type)], JUndefined))"
| "zparse (ZOptional s) p v = (case v of JUndefined \<Rightarrow> ([], JUndefined) | _ \<Rightarrow> zparse s p v)"
| "zparse (ZDefault s d) p v = (case v of JUndefined \<Rightarrow> zparse s p d | _ \<Rightarrow> zparse s p v)"

text \<open>\<^verbatim>\<open>schema.parse(v)\<close>\<close>

definition zod_parse :: "schema \<Rightarrow> json \<Rightarrow> js_error + json" where
  "zod_parse s v = (case zparse s [] v of (iss, out) \<Rightarrow> if iss = [] then Inr out else Inl (ZodError iss))"

subsection \<open>The schemas of \<^verbatim>\<open>src/README.md\<close>\<close>

definition en_dash :: string where
  "en_dash = [CHR 0xE2, CHR 0x80, CHR 0x93]"

text \<open>
  \<^verbatim>\<open>
  const CharacterReq = z.object({
    prompt: z.string().min(1).default("Create a kid-friendly STEM character."),
    audience: z.string().default("ages 6-10"),
    style: z.string().default("bright 2D cartoon"),
    constraints: z.string().default("original; no resemblance to existing IP"),
  });
  \<close>
  (the dash in the audience default is U+2013). The same schema stands in
  \<^verbatim>\<open>src/server.js\<close>.
\<close>

definition CharacterReq :: schema where
  "CharacterReq = ZObject
     [(''prompt'', ZDefault (ZString [SMin 1]) (JStr ''Create a kid-friendly STEM character.'')),
      (''audience'', ZDefault (ZString []) (JStr (''ages 6'' @ en_dash @ ''10''))),
      (''style'', ZDefault (ZString []) (JStr ''bright 2D cartoon'')),
      (''constraints'', ZDefault (ZString []) (JStr ''original; no resemblance to existing IP''))]"

definition CharacterRes :: schema where
  "CharacterRes = ZObject
     [(''name'', ZString []),
      (''species_or_type'', ZString []),
      (''visual_description'', ZString []),
      (''personality'', ZString []),
      (''catchphrases'', ZDefault (ZOptional (ZArray (ZString []))) (JArr [])),
      (''strengths'', ZDefault (ZOptional (ZArray (ZString []))) (JArr [])),
      (''quirks'', ZDefault (ZOptional (ZArray (ZString []))) (JArr [])),
      (''stem_domain'', ZString []),
      (''color_palette'', ZDefault (ZOptional (ZArray (ZString []))) (JArr [])),
      (''do_not_copy'', ZString [])]"

definition StoryReq :: schema where
  "StoryReq = ZObject
     [(''title'', ZDefault (ZString []) (JStr ''Adventure in Volcano Valley'')),
      (''topic'', ZDefault (ZString []) (JStr ''volcano science'')),
      (''target_age'', ZDefault (ZString []) (JStr (''6'' @ en_dash @ ''10''))),
      (''minutes'', ZDefault (ZNumber [CInt, CMin 1, CMax 15]) (JNum 3 0)),
      (''characters'', ZDefault (ZArray ZAny) (JArr [])),
      (''moral'', ZDefault (ZString []) (JStr ''Curiosity + safety'')),
      (''educational_goals'', ZDefault (ZArray (ZString []))
         (JArr [JStr ''Basic volcano formation'',
                JStr ''Safety around natural phenomena'',
                JStr ''Scientific observation skills'']))]"

definition StoryRes :: schema where
  "StoryRes = ZObject
     [(''title'', ZString []),
      (''opening'', ZString []),
      (''scenes'', ZArray (ZObject
         [(''setting'', ZString []),
          (''action'', ZString []),
          (''dialogue'', ZString []),
          (''duration'', ZNumber [])])),
      (''closing'', ZString []),
      (''moral'', ZString []),
      (''educational_goals'', ZArray (ZString [])),
      (''total_duration'', ZNumber [])]"

subsection \<open>The Model Gateway and the responses\<close>

text \<open>
  \<^verbatim>\<open>openaiClient.chat.completions.create\<close> is the external collaborator. Without
  \<^verbatim>\<open>stream\<close> it resolves to a completion, here the \<^verbatim>\<open>message.content\<close> of each of its
  choices (\<open>None\<close> is \<^verbatim>\<open>null\<close>), or rejects. With \<^verbatim>\<open>stream: true\<close> it resolves to a stream
  of chunks, each the \<^verbatim>\<open>delta.content\<close> of its choices, that ends or fails.
\<close>

type_synonym chunk = "string option list"

datatype chunk_stream = ChunkStream "chunk list" "js_error option"

record gateway =
  complete :: "client \<Rightarrow> chat_request \<Rightarrow> js_error + string option list"
  open_stream :: "client \<Rightarrow> chat_request \<Rightarrow> js_error + chunk_stream"

text \<open>
  \<open>Failure e err\<close> is the body \<^verbatim>\<open>{ error: e, details: err.message }\<close>. \<open>EventStream fs b\<close>
  is a response whose head (status 200, \<^verbatim>\<open>text/event-stream\<close>) was written, followed by
  the writes \<open>fs\<close>; \<open>b\<close> tells whether \<^verbatim>\<open>res.end()\<close> ran.
\<close>

datatype reply_body = Payload json | Failure string js_error

datatype response = JsonResponse nat reply_body | EventStream "string list" bool

fun status :: "response \<Rightarrow> nat" where
  "status (JsonResponse n b) = n"
| "status (EventStream fs b) = 200"

text \<open>\<^verbatim>\<open>completion.choices[0].message.content\<close>\<close>

fun first_content :: "string option list \<Rightarrow> js_error + json" where
  "first_content [] = Inl (TypeError ''Cannot read properties of undefined (reading message)'')"
| "first_content (None # cs) = Inr JNull"
| "first_content (Some t # cs) = Inr (JStr t)"

definition log_call :: "chat_request \<Rightarrow> server_state \<Rightarrow> server_state" where
  "log_call r s = s\<lparr>gateway_calls := gateway_calls s @ [r]\<rparr>"

subsection \<open>\<^verbatim>\<open>POST /api/character\<close> (\<^verbatim>\<open>src/README.md\<close>)\<close>

text \<open>
  \<^verbatim>\<open>
  app.post("/api/character", async (req, res) => {
    try {
      const body = CharacterReq.parse(req.body);
      const openaiClient = getOpenAI();
      const completion = await openaiClient.chat.completions.create({
        model: MODEL,
        messages: [
          { role: "system", content: `You are a character designer for STEM education. ...` },
          { role: "user",
            content: `Design a character with these requirements: ${body.prompt}. Target audience: ${body.audience}. Style: ${body.style}. Constraints: ${body.constraints}` },
        ],
        response_format: { type: "json_object" },
      });
      const content = completion.choices[0].message.content;
      const parsed = safeParseJSON(content);
      if (!parsed) {
        throw new Error("Failed to parse OpenAI response");
      }
      const result = CharacterRes.parse(parsed);
      res.json(result);
    } catch (error) {
      res.status(500).json({ error: "Character generation failed", details: error.message });
    }
  });
  \<close>
\<close>

definition character_system :: string where
  "character_system = ''You are a character designer for STEM education. Create original, engaging characters that inspire curiosity about science, technology, engineering, and math.''"

definition character_user :: "json \<Rightarrow> string" where
  "character_user body =
     ''Design a character with these requirements: '' @ ToString (field body ''prompt'')
     @ ''. Target audience: '' @ ToString (field body ''audience'')
     @ ''. Style: '' @ ToString (field body ''style'')
     @ ''. Constraints: '' @ ToString (field body ''constraints'')"

definition character_request :: "env \<Rightarrow> json \<Rightarrow> chat_request" where
  "character_request e body =
     \<lparr>model = MODEL e,
      messages = [(''system'', JStr character_system), (''user'', JStr (character_user body))],
      response_format = Some ''json_object'',
      stream = False\<rparr>"

text \<open>The body of the \<^verbatim>\<open>try\<close>: the value handed to \<^verbatim>\<open>res.json\<close>, or what was thrown.\<close>

definition character_try :: "gateway \<Rightarrow> env \<Rightarrow> server_state \<Rightarrow> json \<Rightarrow> server_state \<times> (js_error + json)" where
  "character_try gw e s req_body =
     (case zod_parse CharacterReq req_body of
        Inl err \<Rightarrow> (s, Inl err)
      | Inr body \<Rightarrow>
          (case getOpenAI e s of
             (s1, Inl err) \<Rightarrow> (s1, Inl err)
           | (s1, Inr c) \<Rightarrow>
               (let s2 = log_call (character_request e body) s1 in
                case complete gw c (character_request e body) of
                  Inl err \<Rightarrow> (s2, Inl err)
                | Inr choices \<Rightarrow>
                    (case first_content choices of
                       Inl err \<Rightarrow> (s2, Inl err)
                     | Inr content \<Rightarrow>
                         (let parsed = safeParseJSON content in
                          if \<not> truthy parsed then (s2, Inl (Error ''Failed to parse OpenAI response''))
                          else (s2, zod_parse CharacterRes parsed))))))"

definition character_handler :: "gateway \<Rightarrow> env \<Rightarrow> server_state \<Rightarrow> json \<Rightarrow> server_state \<times> response" where
  "character_handler gw e s req_body =
     (case character_try gw e s req_body of
        (s', Inr result) \<Rightarrow> (s', JsonResponse 200 (Payload result))
      | (s', Inl err) \<Rightarrow> (s', JsonResponse 500 (Failure ''Character generation failed'' err)))"

subsection \<open>\<^verbatim>\<open>POST /api/story\<close> (\<^verbatim>\<open>src/README.md\<close>)\<close>

text \<open>
  The handler has the shape of the one above, with \<open>StoryReq\<close>, \<open>StoryRes\<close>, the error
  text \<^verbatim>\<open>Story generation failed\<close>, and the user message
  \<^verbatim>\<open>
  `Create a story about ${body.topic} for ages ${body.target_age}. Duration: ${body.minutes} minutes. Include these characters: ${body.characters.join(", ")}. Moral: ${body.moral}. Educational goals: ${body.educational_goals.join(", ")}`
  \<close>
\<close>

text \<open>\<^verbatim>\<open>v.join(sep)\<close>: only an array has the method.\<close>

fun method_join :: "json \<Rightarrow> string \<Rightarrow> js_error + string" where
  "method_join (JArr xs) sep = Inr (array_join sep xs)"
| "method_join JUndefined sep = Inl (TypeError ''Cannot read properties of undefined (reading join)'')"
| "method_join JNull sep = Inl (TypeError ''Cannot read properties of null (reading join)'')"
| "method_join _ sep = Inl (TypeError ''join is not a function'')"

definition story_system :: string where
  "story_system = ''You are a storyteller for STEM education. Create engaging, educational stories that make complex concepts accessible to children.''"

definition story_user :: "json \<Rightarrow> js_error + string" where
  "story_user body =
     (case method_join (field body ''characters'') '', '' of
        Inl err \<Rightarrow> Inl err
      | Inr cs \<Rightarrow>
          (case method_join (field body ''educational_goals'') '', '' of
             Inl err \<Rightarrow> Inl err
           | Inr gs \<Rightarrow>
               Inr (''Create a story about '' @ ToString (field body ''topic'')
                    @ '' for ages '' @ ToString (field body ''target_age'')
                    @ ''. Duration: '' @ ToString (field body ''minutes'')
                    @ '' minutes. Include these characters: '' @ cs
                    @ ''. Moral: '' @ ToString (field body ''moral'')
                    @ ''. Educational goals: '' @ gs)))"

definition story_request :: "env \<Rightarrow> string \<Rightarrow> chat_request" where
  "story_request e user =
     \<lparr>model = MODEL e,
      messages = [(''system'', JStr story_system), (''user'', JStr user)],
      response_format = Some ''json_object'',
      stream = False\<rparr>"

definition story_try :: "gateway \<Rightarrow> env \<Rightarrow> server_state \<Rightarrow> json \<Rightarrow> server_state \<times> (js_error + json)" where
  "story_try gw e s req_body =
     (case zod_parse StoryReq req_body of
        Inl err \<Rightarrow> (s, Inl err)
      | Inr body \<Rightarrow>
          (case getOpenAI e s of
             (s1, Inl err) \<Rightarrow> (s1, Inl err)
           | (s1, Inr c) \<Rightarrow>
               (case story_user body of
                  Inl err \<Rightarrow> (s1, Inl err)
                | Inr user \<Rightarrow>
                    (let s2 = log_call (story_request e user) s1 in
                     case complete gw c (story_request e user) of
                       Inl err \<Rightarrow> (s2, Inl err)
                     | Inr choices \<Rightarrow>
                         (case first_content choices of
                            Inl err \<Rightarrow> (s2, Inl err)
                          | Inr content \<Rightarrow>
                              (let parsed = safeParseJSON content in
                               if \<not> truthy parsed then (s2, Inl (Error ''Failed to parse OpenAI response''))
                               else (s2, zod_parse StoryRes parsed)))))))"

definition story_handler :: "gateway \<Rightarrow> env \<Rightarrow> server_state \<Rightarrow> json \<Rightarrow> server_state \<times> response" where
  "story_handler gw e s req_body =
     (case story_try gw e s req_body of
        (s', Inr result) \<Rightarrow> (s', JsonResponse 200 (Payload result))
      | (s', Inl err) \<Rightarrow> (s', JsonResponse 500 (Failure ''Story generation failed'' err)))"

subsection \<open>\<^verbatim>\<open>POST /api/ask\<close> (\<^verbatim>\<open>src/README.md\<close>)\<close>

text \<open>
  \<^verbatim>\<open>
  app.post("/api/ask", async (req, res) => {
    try {
      const { question } = req.body;
      if (!question) {
        return res.status(400).json({ error: "Question is required" });
      }
      const openaiClient = getOpenAI();
      sendSSEHeaders(res);
      const stream = await openaiClient.chat.completions.create({
        model: MODEL,
        messages: [
          { role: "system", content: "You are a friendly STEM tutor for kids. ..." },
          { role: "user", content: question },
        ],
        stream: true,
      });
      for await (const chunk of stream) {
        const content = chunk.choices[0]?.delta?.content;
        if (content) {
          res.write(`data: ${JSON.stringify({ content })}\n\n`);
        }
      }
      res.write("data: [DONE]\n\n");
      res.end();
    } catch (error) {
      res.status(500).json({ error: "Ask endpoint failed", details: error.message });
    }
  });
  \<close>
\<close>

definition ask_system :: string where
  "ask_system = ''You are a friendly STEM tutor for kids. Keep answers simple, engaging, and age-appropriate.''"

text \<open>\<^verbatim>\<open>`data: ${JSON.stringify({ content })}\n\n`\<close> and \<^verbatim>\<open>"data: [DONE]\n\n"\<close>\<close>

definition data_frame :: "string \<Rightarrow> string" where
  "data_frame content =
     ''data: {'' @ [CHR 0x22] @ ''content'' @ [CHR 0x22] @ '':'' @ json_quote content @ ''}''
     @ [CHR 0x0A, CHR 0x0A]"

definition done_frame :: string where
  "done_frame = ''data: [DONE]'' @ [CHR 0x0A, CHR 0x0A]"

text \<open>\<^verbatim>\<open>chunk.choices[0]?.delta?.content\<close>\<close>

fun chunk_content :: "chunk \<Rightarrow> string option" where
  "chunk_content [] = None"
| "chunk_content (c # cs) = c"

text \<open>The \<^verbatim>\<open>for await\<close> loop: one write for each chunk whose content is truthy.\<close>

fun write_chunks :: "chunk list \<Rightarrow> string list" where
  "write_chunks [] = []"
| "write_chunks (ch # chs) =
     (case chunk_content ch of
        None \<Rightarrow> write_chunks chs
      | Some content \<Rightarrow> if content = [] then write_chunks chs else data_frame content # write_chunks chs)"

definition ask_request :: "env \<Rightarrow> json \<Rightarrow> chat_request" where
  "ask_request e question =
     \<lparr>model = MODEL e,
      messages = [(''system'', JStr ask_system), (''user'', question)],
      response_format = None,
      stream = True\<rparr>"

text \<open>
  Destructuring \<^verbatim>\<open>const { question } = req.body\<close> throws on \<^verbatim>\<open>null\<close> and \<^verbatim>\<open>undefined\<close>.
  Once the head is written, the \<^verbatim>\<open>catch\<close> cannot answer: \<^verbatim>\<open>res.status(500).json\<close> then
  throws itself, and the response stays as it is, not ended.
\<close>

definition ask_handler :: "gateway \<Rightarrow> env \<Rightarrow> server_state \<Rightarrow> json \<Rightarrow> server_state \<times> response" where
  "ask_handler gw e s req_body =
     (case req_body of
        JUndefined \<Rightarrow>
          (s, JsonResponse 500 (Failure ''Ask endpoint failed'' (TypeError ''Cannot destructure property question of req.body as it is undefined.'')))
      | JNull \<Rightarrow>
          (s, JsonResponse 500 (Failure ''Ask endpoint failed'' (TypeError ''Cannot destructure property question of req.body as it is null.'')))
      | _ \<Rightarrow>
          (let question = field req_body ''question'' in
           if \<not> truthy question
           then (s, JsonResponse 400 (Payload (JObj [(''error'', JStr ''Question is required'')])))
           else
             (case getOpenAI e s of
                (s1, Inl err) \<Rightarrow> (s1, JsonResponse 500 (Failure ''Ask endpoint failed'' err))
              | (s1, Inr c) \<Rightarrow>
                  (let s2 = log_call (ask_request e question) s1 in
                   case open_stream gw c (ask_request e question) of
                     Inl err \<Rightarrow> (s2, EventStream [] False)
                   | Inr (ChunkStream chs None) \<Rightarrow> (s2, EventStream (write_chunks chs @ [done_frame]) True)
                   | Inr (ChunkStream chs (Some err)) \<Rightarrow> (s2, EventStream (write_chunks chs) False)))))"

subsection \<open>\<^verbatim>\<open>POST /api/character\<close> in the duplicate \<^verbatim>\<open>src/server.js\<close>\<close>

text \<open>
  \<^verbatim>\<open>
  const body = safeParseJSON(req.body);
  if (!body) { return res.status(400).json({ error: "Invalid JSON" }); }
  const validated = CharacterReq.parse(body);
  const openaiClient = getOpenAI();
  const completion = await openaiClient.chat.completions.create({ ...
  \<close>
  The file ends inside the call's arguments, so the model follows the request up to
  the call: it answers 400, throws into the \<^verbatim>\<open>catch\<close>, or reaches the call with the
  validated body.
\<close>

datatype progress = Responded response | Threw js_error | CalledGateway client json

definition server_js_character :: "env \<Rightarrow> server_state \<Rightarrow> json \<Rightarrow> server_state \<times> progress" where
  "server_js_character e s req_body =
     (let body = safeParseJSON req_body in
      if \<not> truthy body
      then (s, Responded (JsonResponse 400 (Payload (JObj [(''error'', JStr ''Invalid JSON'')]))))
      else
        (case zod_parse CharacterReq body of
           Inl err \<Rightarrow> (s, Threw err)
         | Inr validated \<Rightarrow>
             (case getOpenAI e s of
                (s1, Inl err) \<Rightarrow> (s1, Threw err)
              | (s1, Inr c) \<Rightarrow> (s1, CalledGateway c validated))))"

subsection \<open>Test doubles\<close>

text \<open>
  A process with the credential set, and a gateway that answers every blocking call
  with one choice whose content is a fixed text and every streaming call with a fixed
  list of fragments, one per chunk, followed by a normal end.
\<close>

definition test_env :: env where
  "test_env = \<lparr>OPENAI_API_KEY = Some ''sk-test'', OPENAI_MODEL = None\<rparr>"

definition stub_gateway :: "string \<Rightarrow> string list \<Rightarrow> gateway" where
  "stub_gateway text fragments =
     \<lparr>complete = (\<lambda>c r. Inr [Some text]),
      open_stream = (\<lambda>c r. Inr (ChunkStream (map (\<lambda>f. [Some f]) fragments) None))\<rparr>"

text \<open>The \<^verbatim>\<open>error\<close> member of a response body, when it has one.\<close>

fun error_field :: "response \<Rightarrow> string option" where
  "error_field (JsonResponse n (Failure e err)) = Some e"
| "error_field (JsonResponse n (Payload v)) = (case field v ''error'' of JStr e \<Rightarrow> Some e | _ \<Rightarrow> None)"
| "error_field (EventStream fs b) = None"

text \<open>The value that \<^verbatim>\<open>res.json\<close> was given by the success path, when the response is one.\<close>

fun payload :: "response \<Rightarrow> json option" where
  "payload (JsonResponse n (Payload v)) = (if n = 200 then Some v else None)"
| "payload (JsonResponse n (Failure e err)) = None"
| "payload (EventStream fs b) = None"

section \<open>The client handle\<close>





section \<open>The streamed relay\<close>

lemma write_chunks_fragments:
  "[] \<notin> set fs \<Longrightarrow> write_chunks (map (\<lambda>f. [Some f]) fs) = map data_frame fs"
  by (induction fs) auto

lemma done_frame_not_data: "done_frame \<noteq> data_frame f"
  by (simp add: done_frame_def data_frame_def)

text \<open>
  C4. With a valid question and a client, if the gateway's stream delivers the
  non-empty fragments \<open>fs\<close>, one per chunk, and then ends, \<^verbatim>\<open>/api/ask\<close> writes one data
  frame for each fragment, in the order received, then the one terminal frame
  \<^verbatim>\<open>data: [DONE]\<close>, which is no data frame, and ends the response. At the fragments
  \<^verbatim>\<open>Hel\<close>, \<^verbatim>\<open>lo\<close> these are the three frames of the witness.
\<close>

theorem ask_relays_in_order:
  assumes question: "truthy (field req_body ''question'')"
    and client: "getOpenAI e s = (s1, Inr c)"
    and stream: "open_stream gw c (ask_request e (field req_body ''question''))
                   = Inr (ChunkStream (map (\<lambda>f. [Some f]) fs) None)"
    and nonempty: "[] \<notin> set fs"
  shows "snd (ask_handler gw e s req_body) = EventStream (map data_frame fs @ [done_frame]) True
         \<and> done_frame \<notin> set (map data_frame fs)"
proof -
  have "req_body \<noteq> JUndefined" "req_body \<noteq> JNull"
    using question by auto
  then have "snd (ask_handler gw e s req_body)
               = EventStream (write_chunks (map (\<lambda>f. [Some f]) fs) @ [done_frame]) True"
    using question client stream
    by (cases req_body) (simp_all add: ask_handler_def Let_def)
  moreover have "done_frame \<notin> set (map data_frame fs)"
    using done_frame_not_data by auto
  ultimately show ?thesis
    using nonempty by (simp add: write_chunks_fragments)
qed

theorem ask_relays_in_order_witness:
  \<open>snd (ask_handler (stub_gateway [] [''Hel'', ''lo'']) test_env initial_state
          (JObj [(''question'', JStr ''Why is the sky blue?'')]))
     = EventStream
         [''data: {"content":"Hel"}'' @ [CHR 0x0A, CHR 0x0A],
          ''data: {"content":"lo"}'' @ [CHR 0x0A, CHR 0x0A],
          ''data: [DONE]'' @ [CHR 0x0A, CHR 0x0A]] True\<close>
  using ask_relays_in_order
    [of "JObj [(''question'', JStr ''Why is the sky blue?'')]" test_env initial_state
        "initial_state\<lparr>openai := Some \<lparr>apiKey = ''sk-test'', handle = 0\<rparr>, constructions := 1\<rparr>"
        "\<lparr>apiKey = ''sk-test'', handle = 0\<rparr>" "stub_gateway [] [''Hel'', ''lo'']" "[''Hel'', ''lo'']"]
  by (simp add: getOpenAI_def Let_def test_env_def initial_state_def stub_gateway_def
      data_frame_def done_frame_def json_quote_def quote_char_def)

section \<open>Validation of the request\<close>

lemma getOpenAI_keeps_log: "getOpenAI e s = (s1, r) \<Longrightarrow> gateway_calls s1 = gateway_calls s"
  by (auto simp: getOpenAI_def Let_def split: option.splits if_splits)

lemma CharacterReq_empty:
  "zod_parse CharacterReq (JObj []) =
     Inr (JObj [(''prompt'', JStr ''Create a kid-friendly STEM character.''),
                (''audience'', JStr (''ages 6'' @ en_dash @ ''10'')),
                (''style'', JStr ''bright 2D cartoon''),
                (''constraints'', JStr ''original; no resemblance to existing IP'')])"
  by (simp add: zod_parse_def CharacterReq_def js_length_def en_dash_def)

lemma character_try_state:
  assumes "zod_parse CharacterReq req_body = Inr body" "getOpenAI e s = (s1, Inr c)"
  shows "fst (character_try gw e s req_body) = log_call (character_request e body) s1"
  using assms
  by (simp add: character_try_def Let_def split: sum.splits)

text \<open>
  C7. The payload \<^verbatim>\<open>{}\<close> passes \<open>CharacterReq\<close> with every field at its default, and
  (with a client at hand) the request handed to the gateway carries the user prompt
  composed from those defaults, beginning with
  \<^verbatim>\<open>Design a character with these requirements: Create a kid-friendly STEM character.\<close>
\<close>

theorem empty_payload_uses_defaults:
  assumes client: "getOpenAI e s = (s1, Inr c)"
  shows "zod_parse CharacterReq (JObj []) =
           Inr (JObj [(''prompt'', JStr ''Create a kid-friendly STEM character.''),
                      (''audience'', JStr (''ages 6'' @ en_dash @ ''10'')),
                      (''style'', JStr ''bright 2D cartoon''),
                      (''constraints'', JStr ''original; no resemblance to existing IP'')])
         \<and> gateway_calls (fst (character_handler gw e s (JObj []))) =
             gateway_calls s @
             [\<lparr>model = MODEL e,
               messages =
                 [(''system'', JStr character_system),
                  (''user'', JStr (''Design a character with these requirements: Create a kid-friendly STEM character.. Target audience: ages 6'' @ en_dash @ ''10. Style: bright 2D cartoon. Constraints: original; no resemblance to existing IP''))],
               response_format = Some ''json_object'',
               stream = False\<rparr>]"
proof -
  let ?body = "JObj [(''prompt'', JStr ''Create a kid-friendly STEM character.''),
                     (''audience'', JStr (''ages 6'' @ en_dash @ ''10'')),
                     (''style'', JStr ''bright 2D cartoon''),
                     (''constraints'', JStr ''original; no resemblance to existing IP'')]"
  have parse: "zod_parse CharacterReq (JObj []) = Inr ?body"
    by (rule CharacterReq_empty)
  have "fst (character_handler gw e s (JObj [])) = fst (character_try gw e s (JObj []))"
    by (simp add: character_handler_def split: prod.splits sum.splits)
  also have "\<dots> = log_call (character_request e ?body) s1"
    using parse client by (rule character_try_state)
  finally have "gateway_calls (fst (character_handler gw e s (JObj []))) =
                  gateway_calls s1 @ [character_request e ?body]"
    by (simp add: log_call_def)
  moreover have "gateway_calls s1 = gateway_calls s"
    using client by (rule getOpenAI_keeps_log)
  moreover have "character_user ?body = ''Design a character with these requirements: Create a kid-friendly STEM character.. Target audience: ages 6'' @ en_dash @ ''10. Style: bright 2D cartoon. Constraints: original; no resemblance to existing IP''"
    by (simp add: character_user_def)
  ultimately show ?thesis
    using parse by (simp add: character_request_def)
qed

theorem empty_payload_uses_defaults_witness:
  "gateway_calls (fst (character_handler (stub_gateway ''{}'' []) test_env initial_state (JObj []))) =
     [\<lparr>model = ''gpt-4o-mini'',
       messages =
         [(''system'', JStr ''You are a character designer for STEM education. Create original, engaging characters that inspire curiosity about science, technology, engineering, and math.''),
          (''user'', JStr (''Design a character with these requirements: Create a kid-friendly STEM character.. Target audience: ages 6'' @ [CHR 0xE2, CHR 0x80, CHR 0x93] @ ''10. Style: bright 2D cartoon. Constraints: original; no resemblance to existing IP''))],
       response_format = Some ''json_object'',
       stream = False\<rparr>]"
  using empty_payload_uses_defaults
    [of test_env initial_state
        "initial_state\<lparr>openai := Some \<lparr>apiKey = ''sk-test'', handle = 0\<rparr>, constructions := 1\<rparr>"
        "\<lparr>apiKey = ''sk-test'', handle = 0\<rparr>" "stub_gateway ''{}'' []"]
  by (simp add: getOpenAI_def Let_def test_env_def initial_state_def MODEL_def character_system_def en_dash_def)

lemma character_invalid:
  "zod_parse CharacterReq req_body = Inl err \<Longrightarrow>
   character_handler gw e s req_body = (s, JsonResponse 500 (Failure ''Character generation failed'' err))"
  by (simp add: character_handler_def character_try_def)

lemma story_invalid:
  "zod_parse StoryReq req_body = Inl err \<Longrightarrow>
   story_handler gw e s req_body = (s, JsonResponse 500 (Failure ''Story generation failed'' err))"
  by (simp add: story_handler_def story_try_def)

text \<open>
  C1. A payload that fails validation is answered before any gateway call, and the
  state is left as it was, but the answer has status 500, not a 4xx status: the
  \<open>ZodError\<close> falls into the same \<^verbatim>\<open>catch\<close> as every other failure. So it is for
  \<^verbatim>\<open>{"prompt": ""}\<close> at \<^verbatim>\<open>/api/character\<close> and for \<^verbatim>\<open>{"minutes": 0}\<close> at \<^verbatim>\<open>/api/story\<close>.
\<close>

theorem invalid_payload_answered_500:
  "character_handler gw e s (JObj [(''prompt'', JStr [])]) =
     (s, JsonResponse 500 (Failure ''Character generation failed'' (ZodError [([Key ''prompt''], too_small)])))
   \<and> story_handler gw e s (JObj [(''minutes'', JNum 0 0)]) =
     (s, JsonResponse 500 (Failure ''Story generation failed'' (ZodError [([Key ''minutes''], too_small)])))"
proof -
  have "zod_parse CharacterReq (JObj [(''prompt'', JStr [])]) = Inl (ZodError [([Key ''prompt''], too_small)])"
    by (simp add: zod_parse_def CharacterReq_def js_length_def)
  moreover have "zod_parse StoryReq (JObj [(''minutes'', JNum 0 0)]) = Inl (ZodError [([Key ''minutes''], too_small)])"
    by (simp add: zod_parse_def StoryReq_def is_integer_def num_ge_def num_le_def)
  ultimately show ?thesis
    by (simp add: character_invalid story_invalid)
qed

theorem invalid_payload_answered_500_witness:
  "status (snd (character_handler (stub_gateway ''{}'' []) test_env initial_state (JObj [(''prompt'', JStr [])]))) = 500
   \<and> status (snd (story_handler (stub_gateway ''{}'' []) test_env initial_state (JObj [(''minutes'', JNum 0 0)]))) = 500
   \<and> gateway_calls (fst (story_handler (stub_gateway ''{}'' []) test_env initial_state (JObj [(''minutes'', JNum 0 0)]))) = []"
  using invalid_payload_answered_500 [of "stub_gateway ''{}'' []" test_env initial_state]
  by (simp add: initial_state_def)





section \<open>The duplicate server file\<close>

lemma parse_object_Object: "JSON_parse ''[object Object]'' = None"
  by (simp add: JSON_parse_def lstart_def digit_val_def)

text \<open>
  C10. In \<^verbatim>\<open>src/server.js\<close> a request body that is an object, \<^verbatim>\<open>{}\<close> included, is turned
  into the text \<^verbatim>\<open>[object Object]\<close> by the second parse, which fails: the handler
  answers 400 \<^verbatim>\<open>Invalid JSON\<close>, and the request reaches neither validation nor the
  gateway.
\<close>

theorem server_js_object_body_rejected:
  "server_js_character e s (JObj kvs) =
     (s, Responded (JsonResponse 400 (Payload (JObj [(''error'', JStr ''Invalid JSON'')]))))"
  by (simp add: server_js_character_def safeParseJSON_def parse_object_Object)

theorem server_js_object_body_rejected_witness:
  "server_js_character test_env initial_state (JObj []) =
     (initial_state, Responded (JsonResponse 400 (Payload (JObj [(''error'', JStr ''Invalid JSON'')]))))"
  using server_js_object_body_rejected [of test_env initial_state "[]"]
  by simp

text \<open>
  The body \<^verbatim>\<open>["{}"]\<close>, an array of one string, converts to the text \<^verbatim>\<open>{}\<close>; the second
  parse succeeds, the result passes \<open>CharacterReq\<close> with the defaults, and the request
  reaches the gateway call.
\<close>

theorem server_js_array_body_reaches_gateway:
  "server_js_character test_env initial_state (JArr [JStr ''{}'']) =
     (\<lparr>openai = Some \<lparr>apiKey = ''sk-test'', handle = 0\<rparr>, constructions = 1, gateway_calls = []\<rparr>,
      CalledGateway \<lparr>apiKey = ''sk-test'', handle = 0\<rparr>
        (JObj [(''prompt'', JStr ''Create a kid-friendly STEM character.''),
               (''audience'', JStr (''ages 6'' @ [CHR 0xE2, CHR 0x80, CHR 0x93] @ ''10'')),
               (''style'', JStr ''bright 2D cartoon''),
               (''constraints'', JStr ''original; no resemblance to existing IP'')]))"
proof -
  have "safeParseJSON (JArr [JStr ''{}'']) = JObj []"
    by (simp add: safeParseJSON_def JSON_parse_def lstart_def)
  then show ?thesis
    by (simp add: server_js_character_def CharacterReq_empty getOpenAI_def Let_def
        test_env_def initial_state_def en_dash_def)
qed

section \<open>The blocking relay\<close>

lemma character_after_reply:
  assumes valid: "zod_parse CharacterReq req_body = Inr body"
    and client: "getOpenAI e s = (s1, Inr c)"
    and reply: "complete gw c (character_request e body) = Inr (Some text # rest)"
  shows "snd (character_try gw e s req_body) =
           (if \<not> truthy (safeParseJSON (JStr text)) then Inl (Error ''Failed to parse OpenAI response'')
            else zod_parse CharacterRes (safeParseJSON (JStr text)))"
  using assms by (simp add: character_try_def Let_def)

lemma character_response:
  "snd (character_handler gw e s req_body) =
     (case snd (character_try gw e s req_body) of
        Inr result \<Rightarrow> JsonResponse 200 (Payload result)
      | Inl err \<Rightarrow> JsonResponse 500 (Failure ''Character generation failed'' err))"
  by (simp add: character_handler_def split: prod.splits sum.splits)

text \<open>
  C3. When the first choice of the gateway's reply carries a text that is no JSON, or
  JSON that \<open>CharacterRes\<close> rejects, \<^verbatim>\<open>/api/character\<close> answers with status 500 and the
  body \<^verbatim>\<open>{ error: "Character generation failed", details }\<close>, never with a 200 and never
  with a payload; for a text that does not parse, the details are
  \<^verbatim>\<open>Failed to parse OpenAI response\<close>.
\<close>

theorem malformed_reply_answered_500:
  assumes valid: "zod_parse CharacterReq req_body = Inr body"
    and client: "getOpenAI e s = (s1, Inr c)"
    and reply: "complete gw c (character_request e body) = Inr (Some text # rest)"
    and malformed: "JSON_parse text = None \<or> (\<exists>v. JSON_parse text = Some v \<and> isl (zod_parse CharacterRes v))"
  shows "\<exists>err. snd (character_handler gw e s req_body) =
                 JsonResponse 500 (Failure ''Character generation failed'' err)
               \<and> (JSON_parse text = None \<longrightarrow> err = Error ''Failed to parse OpenAI response'')"
proof -
  note tried = character_after_reply [OF valid client reply]
  from malformed show ?thesis
  proof
    assume "JSON_parse text = None"
    then show ?thesis
      by (simp add: character_response tried safeParseJSON_def)
  next
    assume "\<exists>v. JSON_parse text = Some v \<and> isl (zod_parse CharacterRes v)"
    then obtain v err where v: "JSON_parse text = Some v" "zod_parse CharacterRes v = Inl err"
      by (auto simp: isl_def)
    then show ?thesis
      by (simp add: character_response tried safeParseJSON_def)
  qed
qed

theorem malformed_reply_answered_500_witness:
  "status (snd (character_handler (stub_gateway ''{}'' []) test_env initial_state (JObj []))) = 500
   \<and> error_field (snd (character_handler (stub_gateway ''{}'' []) test_env initial_state (JObj [])))
       = Some ''Character generation failed''"
proof -
  have parse: "JSON_parse ''{}'' = Some (JObj [])"
    by (simp add: JSON_parse_def lstart_def)
  have rejected: "isl (zod_parse CharacterRes (JObj []))"
    by (simp add: zod_parse_def CharacterRes_def)
  have client: "getOpenAI test_env initial_state =
      (initial_state\<lparr>openai := Some \<lparr>apiKey = ''sk-test'', handle = 0\<rparr>, constructions := 1\<rparr>,
       Inr \<lparr>apiKey = ''sk-test'', handle = 0\<rparr>)"
    by (simp add: getOpenAI_def Let_def test_env_def initial_state_def)
  have reply: "complete (stub_gateway ''{}'' []) \<lparr>apiKey = ''sk-test'', handle = 0\<rparr>
                 (character_request test_env
                   (JObj [(''prompt'', JStr ''Create a kid-friendly STEM character.''),
                          (''audience'', JStr (''ages 6'' @ en_dash @ ''10'')),
                          (''style'', JStr ''bright 2D cartoon''),
                          (''constraints'', JStr ''original; no resemblance to existing IP'')]))
               = Inr (Some ''{}'' # [])"
    by (simp add: stub_gateway_def)
  from malformed_reply_answered_500 [OF CharacterReq_empty client reply] parse rejected
  show ?thesis
    by auto
qed

text \<open>
  The reply \<^verbatim>\<open>not json\<close> is answered with the category \<^verbatim>\<open>Character generation failed\<close>,
  the one every failure of this handler has, not \<^verbatim>\<open>MalformedUpstreamResponse\<close>.
\<close>

theorem malformed_reply_category_counterexample:
  "error_field (snd (character_handler (stub_gateway ''not json'' []) test_env initial_state (JObj [])))
     = Some ''Character generation failed''
   \<and> error_field (snd (character_handler (stub_gateway ''not json'' []) test_env initial_state (JObj [])))
     \<noteq> Some ''MalformedUpstreamResponse''"
proof -
  have "JSON_parse ''not json'' = None"
    by (simp add: JSON_parse_def lstart_def)
  then have "snd (character_handler (stub_gateway ''not json'' []) test_env initial_state (JObj []))
      = JsonResponse 500 (Failure ''Character generation failed'' (Error ''Failed to parse OpenAI response''))"
    by (simp add: character_response character_try_def CharacterReq_empty getOpenAI_def Let_def
        test_env_def initial_state_def stub_gateway_def safeParseJSON_def)
  then show ?thesis
    by simp
qed

section \<open>What the response schema returns\<close>

lemma zparse_string_ok:
  assumes "fst (zparse (ZString []) p v) = []"
  shows "snd (zparse (ZString []) p v) = v \<and> v \<noteq> JUndefined"
  using assms by (cases v) simp_all

lemma zparse_strings_ok:
  assumes "fst (zparse (ZArray (ZString [])) p (JArr xs)) = []"
  shows "snd (zparse (ZArray (ZString [])) p (JArr xs)) = JArr xs"
proof -
  let ?f = "\<lambda>ix. zparse (ZString []) (p @ [Index (fst ix)]) (snd ix)"
  have "\<forall>ix \<in> set (enumerate 0 xs). fst (?f ix) = []"
    using assms by (simp add: Let_def)
  then have "\<forall>ix \<in> set (enumerate 0 xs). snd (?f ix) = snd ix"
    using zparse_string_ok by blast
  then have "map (\<lambda>ix. snd (?f ix)) (enumerate 0 xs) = map snd (enumerate 0 xs)"
    by (simp cong: map_cong)
  then show ?thesis
    by (simp add: Let_def comp_def)
qed

lemma zparse_optional_strings_ok:
  assumes "fst (zparse (ZDefault (ZOptional (ZArray (ZString []))) (JArr [])) p v) = []"
  shows "snd (zparse (ZDefault (ZOptional (ZArray (ZString []))) (JArr [])) p v) =
           (if v = JUndefined then JArr [] else v)"
proof (cases v)
  case (JArr xs)
  with assms have "fst (zparse (ZArray (ZString [])) p (JArr xs)) = []"
    by simp
  then have "snd (zparse (ZArray (ZString [])) p (JArr xs)) = JArr xs"
    by (rule zparse_strings_ok)
  with JArr show ?thesis by simp
qed (use assms in simp_all)

lemma zparse_object:
  "zparse (ZObject shape) p (JObj kvs) =
     (concat (map (\<lambda>ks. fst (zparse (snd ks) (p @ [Key (fst ks)]) (field (JObj kvs) (fst ks)))) shape),
      JObj (filter (\<lambda>kv. snd kv \<noteq> JUndefined)
             (map (\<lambda>ks. (fst ks, snd (zparse (snd ks) (p @ [Key (fst ks)]) (field (JObj kvs) (fst ks))))) shape)))"
  by (simp add: Let_def comp_def)

lemma CharacterRes_accepts:
  assumes "zod_parse CharacterRes doc = Inr out"
  shows "out = JObj
     [(''name'', field doc ''name''),
      (''species_or_type'', field doc ''species_or_type''),
      (''visual_description'', field doc ''visual_description''),
      (''personality'', field doc ''personality''),
      (''catchphrases'', if field doc ''catchphrases'' = JUndefined then JArr [] else field doc ''catchphrases''),
      (''strengths'', if field doc ''strengths'' = JUndefined then JArr [] else field doc ''strengths''),
      (''quirks'', if field doc ''quirks'' = JUndefined then JArr [] else field doc ''quirks''),
      (''stem_domain'', field doc ''stem_domain''),
      (''color_palette'', if field doc ''color_palette'' = JUndefined then JArr [] else field doc ''color_palette''),
      (''do_not_copy'', field doc ''do_not_copy'')]
    \<and> truthy doc"
proof -
  from assms have ok: "fst (zparse CharacterRes [] doc) = []" and out: "out = snd (zparse CharacterRes [] doc)"
    by (auto simp: zod_parse_def split: prod.splits if_splits)
  from ok obtain kvs where doc: "doc = JObj kvs"
    by (cases doc) (simp_all add: CharacterRes_def)
  let ?S = "ZString []" and ?A = "ZDefault (ZOptional (ZArray (ZString []))) (JArr [])"
  from ok have
    s: "fst (zparse ?S [Key ''name''] (field doc ''name'')) = []"
       "fst (zparse ?S [Key ''species_or_type''] (field doc ''species_or_type'')) = []"
       "fst (zparse ?S [Key ''visual_description''] (field doc ''visual_description'')) = []"
       "fst (zparse ?S [Key ''personality''] (field doc ''personality'')) = []"
       "fst (zparse ?S [Key ''stem_domain''] (field doc ''stem_domain'')) = []"
       "fst (zparse ?S [Key ''do_not_copy''] (field doc ''do_not_copy'')) = []"
    and a: "fst (zparse ?A [Key ''catchphrases''] (field doc ''catchphrases'')) = []"
       "fst (zparse ?A [Key ''strengths''] (field doc ''strengths'')) = []"
       "fst (zparse ?A [Key ''quirks''] (field doc ''quirks'')) = []"
       "fst (zparse ?A [Key ''color_palette''] (field doc ''color_palette'')) = []"
    unfolding doc CharacterRes_def zparse_object by (simp_all del: zparse.simps field.simps)
  note vs = s [THEN zparse_string_ok] a [THEN zparse_optional_strings_ok]
  have "snd (zparse CharacterRes [] doc) = JObj
     [(''name'', field doc ''name''),
      (''species_or_type'', field doc ''species_or_type''),
      (''visual_description'', field doc ''visual_description''),
      (''personality'', field doc ''personality''),
      (''catchphrases'', if field doc ''catchphrases'' = JUndefined then JArr [] else field doc ''catchphrases''),
      (''strengths'', if field doc ''strengths'' = JUndefined then JArr [] else field doc ''strengths''),
      (''quirks'', if field doc ''quirks'' = JUndefined then JArr [] else field doc ''quirks''),
      (''stem_domain'', field doc ''stem_domain''),
      (''color_palette'', if field doc ''color_palette'' = JUndefined then JArr [] else field doc ''color_palette''),
      (''do_not_copy'', field doc ''do_not_copy'')]"
    using vs unfolding doc CharacterRes_def zparse_object
    by (simp del: zparse.simps field.simps)
  then show ?thesis
    using out doc by simp
qed

text \<open>
  C5. When the first choice of the gateway's reply is the text of a JSON document that
  \<open>CharacterRes\<close> accepts, \<^verbatim>\<open>/api/character\<close> answers 200 with the ten fields of the
  schema, in the schema's order, each with the value it has in the document; an
  optional list (\<open>catchphrases\<close>, \<open>strengths\<close>, \<open>quirks\<close>, \<open>color_palette\<close>) that the
  document lacks comes back as the empty list, and no other field of the document comes
  back. So a document that has the four lists and no field outside the schema comes
  back field for field.
\<close>

theorem valid_reply_returned:
  assumes valid: "zod_parse CharacterReq req_body = Inr body"
    and client: "getOpenAI e s = (s1, Inr c)"
    and reply: "complete gw c (character_request e body) = Inr (Some text # rest)"
    and doc: "JSON_parse text = Some doc"
    and accepted: "zod_parse CharacterRes doc = Inr out"
  shows "snd (character_handler gw e s req_body) = JsonResponse 200 (Payload out)
    \<and> out = JObj
       [(''name'', field doc ''name''),
        (''species_or_type'', field doc ''species_or_type''),
        (''visual_description'', field doc ''visual_description''),
        (''personality'', field doc ''personality''),
        (''catchphrases'', if field doc ''catchphrases'' = JUndefined then JArr [] else field doc ''catchphrases''),
        (''strengths'', if field doc ''strengths'' = JUndefined then JArr [] else field doc ''strengths''),
        (''quirks'', if field doc ''quirks'' = JUndefined then JArr [] else field doc ''quirks''),
        (''stem_domain'', field doc ''stem_domain''),
        (''color_palette'', if field doc ''color_palette'' = JUndefined then JArr [] else field doc ''color_palette''),
        (''do_not_copy'', field doc ''do_not_copy'')]
    \<and> ((\<forall>k. field doc k \<noteq> JUndefined \<longrightarrow>
            k \<in> set [''name'', ''species_or_type'', ''visual_description'', ''personality'',
                      ''catchphrases'', ''strengths'', ''quirks'', ''stem_domain'',
                      ''color_palette'', ''do_not_copy''])
         \<and> field doc ''catchphrases'' \<noteq> JUndefined \<and> field doc ''strengths'' \<noteq> JUndefined
         \<and> field doc ''quirks'' \<noteq> JUndefined \<and> field doc ''color_palette'' \<noteq> JUndefined
        \<longrightarrow> (\<forall>k. field out k = field doc k))"
proof -
  have parsed: "safeParseJSON (JStr text) = doc"
    using doc by (simp add: safeParseJSON_def)
  note shape = CharacterRes_accepts [OF accepted]
  then have "truthy doc"
    by blast
  then have "snd (character_try gw e s req_body) = Inr out"
    using character_after_reply [OF valid client reply] parsed accepted by simp
  then have response: "snd (character_handler gw e s req_body) = JsonResponse 200 (Payload out)"
    by (simp add: character_response)
  have "field out k = field doc k"
    if only: "\<forall>k. field doc k \<noteq> JUndefined \<longrightarrow>
            k \<in> set [''name'', ''species_or_type'', ''visual_description'', ''personality'',
                      ''catchphrases'', ''strengths'', ''quirks'', ''stem_domain'',
                      ''color_palette'', ''do_not_copy'']"
      and lists: "field doc ''catchphrases'' \<noteq> JUndefined" "field doc ''strengths'' \<noteq> JUndefined"
        "field doc ''quirks'' \<noteq> JUndefined" "field doc ''color_palette'' \<noteq> JUndefined"
    for k
  proof (cases "k \<in> set [''name'', ''species_or_type'', ''visual_description'', ''personality'',
                      ''catchphrases'', ''strengths'', ''quirks'', ''stem_domain'',
                      ''color_palette'', ''do_not_copy'']")
    case True
    then show ?thesis
      using lists shape by auto
  next
    case False
    with only have "field doc k = JUndefined"
      by blast
    with False shape show ?thesis
      by simp
  qed
  with response shape show ?thesis
    by blast
qed

lemma test_client:
  "getOpenAI test_env initial_state =
     (initial_state\<lparr>openai := Some \<lparr>apiKey = ''sk-test'', handle = 0\<rparr>, constructions := 1\<rparr>,
      Inr \<lparr>apiKey = ''sk-test'', handle = 0\<rparr>)"
  by (simp add: getOpenAI_def Let_def test_env_def initial_state_def)

theorem valid_reply_returned_witness:
  \<open>snd (character_handler
          (stub_gateway ''{"name":"Ada","species_or_type":"owl","visual_description":"round glasses","personality":"curious","catchphrases":["Hoot!"],"strengths":[],"quirks":[],"stem_domain":"math","color_palette":["teal","gold"],"do_not_copy":"none"}'' [])
          test_env initial_state (JObj []))
     = JsonResponse 200 (Payload (JObj
         [(''name'', JStr ''Ada''),
          (''species_or_type'', JStr ''owl''),
          (''visual_description'', JStr ''round glasses''),
          (''personality'', JStr ''curious''),
          (''catchphrases'', JArr [JStr ''Hoot!'']),
          (''strengths'', JArr []),
          (''quirks'', JArr []),
          (''stem_domain'', JStr ''math''),
          (''color_palette'', JArr [JStr ''teal'', JStr ''gold'']),
          (''do_not_copy'', JStr ''none'')]))\<close>
proof -
  let ?text = \<open>''{"name":"Ada","species_or_type":"owl","visual_description":"round glasses","personality":"curious","catchphrases":["Hoot!"],"strengths":[],"quirks":[],"stem_domain":"math","color_palette":["teal","gold"],"do_not_copy":"none"}''\<close>
  let ?doc = "JObj
         [(''name'', JStr ''Ada''),
          (''species_or_type'', JStr ''owl''),
          (''visual_description'', JStr ''round glasses''),
          (''personality'', JStr ''curious''),
          (''catchphrases'', JArr [JStr ''Hoot!'']),
          (''strengths'', JArr []),
          (''quirks'', JArr []),
          (''stem_domain'', JStr ''math''),
          (''color_palette'', JArr [JStr ''teal'', JStr ''gold'']),
          (''do_not_copy'', JStr ''none'')]"
  have doc: "JSON_parse ?text = Some ?doc"
    by (simp add: JSON_parse_def lstart_def flush_def)
  have accepted: "zod_parse CharacterRes ?doc = Inr ?doc"
    by (simp add: zod_parse_def CharacterRes_def)
  have reply: "complete (stub_gateway ?text []) \<lparr>apiKey = ''sk-test'', handle = 0\<rparr>
                 (character_request test_env
                   (JObj [(''prompt'', JStr ''Create a kid-friendly STEM character.''),
                          (''audience'', JStr (''ages 6'' @ en_dash @ ''10'')),
                          (''style'', JStr ''bright 2D cartoon''),
                          (''constraints'', JStr ''original; no resemblance to existing IP'')]))
               = Inr (Some ?text # [])"
    by (simp add: stub_gateway_def)
  from valid_reply_returned [OF CharacterReq_empty test_client reply doc accepted]
  show ?thesis
    by simp
qed

text \<open>
  A document with the six required strings and one more field is accepted, and the
  answer is another document: four empty lists are added and \<open>mood\<close> is gone.
\<close>

theorem valid_reply_changed_counterexample:
  \<open>JSON_parse ''{"name":"Ada","species_or_type":"owl","visual_description":"round glasses","personality":"curious","stem_domain":"math","do_not_copy":"none","mood":"happy"}''
     = Some (JObj
         [(''name'', JStr ''Ada''),
          (''species_or_type'', JStr ''owl''),
          (''visual_description'', JStr ''round glasses''),
          (''personality'', JStr ''curious''),
          (''stem_domain'', JStr ''math''),
          (''do_not_copy'', JStr ''none''),
          (''mood'', JStr ''happy'')])
   \<and> payload (snd (character_handler
          (stub_gateway ''{"name":"Ada","species_or_type":"owl","visual_description":"round glasses","personality":"curious","stem_domain":"math","do_not_copy":"none","mood":"happy"}'' [])
          test_env initial_state (JObj [])))
     = Some (JObj
         [(''name'', JStr ''Ada''),
          (''species_or_type'', JStr ''owl''),
          (''visual_description'', JStr ''round glasses''),
          (''personality'', JStr ''curious''),
          (''catchphrases'', JArr []),
          (''strengths'', JArr []),
          (''quirks'', JArr []),
          (''stem_domain'', JStr ''math''),
          (''color_palette'', JArr []),
          (''do_not_copy'', JStr ''none'')])
   \<and> payload (snd (character_handler
          (stub_gateway ''{"name":"Ada","species_or_type":"owl","visual_description":"round glasses","personality":"curious","stem_domain":"math","do_not_copy":"none","mood":"happy"}'' [])
          test_env initial_state (JObj [])))
     \<noteq> JSON_parse ''{"name":"Ada","species_or_type":"owl","visual_description":"round glasses","personality":"curious","stem_domain":"math","do_not_copy":"none","mood":"happy"}''\<close>
proof -
  let ?text = \<open>''{"name":"Ada","species_or_type":"owl","visual_description":"round glasses","personality":"curious","stem_domain":"math","do_not_copy":"none","mood":"happy"}''\<close>
  let ?doc = "JObj
         [(''name'', JStr ''Ada''),
          (''species_or_type'', JStr ''owl''),
          (''visual_description'', JStr ''round glasses''),
          (''personality'', JStr ''curious''),
          (''stem_domain'', JStr ''math''),
          (''do_not_copy'', JStr ''none''),
          (''mood'', JStr ''happy'')]"
  have doc: "JSON_parse ?text = Some ?doc"
    by (simp add: JSON_parse_def lstart_def flush_def)
  have parsed: "safeParseJSON (JStr ?text) = ?doc"
    using doc by (simp add: safeParseJSON_def)
  have "snd (character_try (stub_gateway ?text []) test_env initial_state (JObj [])) =
          zod_parse CharacterRes ?doc"
    by (simp add: character_try_def CharacterReq_empty test_client stub_gateway_def Let_def parsed)
  then have "snd (character_handler (stub_gateway ?text []) test_env initial_state (JObj [])) =
      JsonResponse 200 (Payload (JObj
         [(''name'', JStr ''Ada''),
          (''species_or_type'', JStr ''owl''),
          (''visual_description'', JStr ''round glasses''),
          (''personality'', JStr ''curious''),
          (''catchphrases'', JArr []),
          (''strengths'', JArr []),
          (''quirks'', JArr []),
          (''stem_domain'', JStr ''math''),
          (''color_palette'', JArr []),
          (''do_not_copy'', JStr ''none'')]))"
    by (simp add: character_response zod_parse_def CharacterRes_def)
  then show ?thesis
    by (simp add: doc)
qed

section \<open>Repeating a request\<close>











section \<open>The story prompt\<close>












end
